theory Spec2Isabelle
  imports Complex_Main "HOL-Library.Sublist"
begin

section \<open>PNG to SVG converter: strings and paths\<close>

text \<open>
  The converter (\<^verbatim>\<open>converter.py\<close>) is a pipeline of calls into the Python standard
  library, PIL, rembg and vtracer. This first part models the string and path functions of
  the standard library that the converter calls, in their POSIX flavour, on \<open>string\<close>
  (paths are compared as plain strings: no normalisation, no symbolic links).
\<close>

type_synonym path = string

subsection \<open>\<^verbatim>\<open>str.replace\<close>\<close>

text \<open>
  \<^verbatim>\<open>s.replace(old, new)\<close> replaces every occurrence of \<open>old\<close>, scanning from the left and
  continuing after each replaced occurrence (occurrences do not overlap). With an empty
  \<open>old\<close> Python puts \<open>new\<close> before every character and at the end.
\<close>

function replace_from :: "string \<Rightarrow> string \<Rightarrow> string \<Rightarrow> string" where
  "replace_from old new [] = []"
| "replace_from old new (c # cs) =
     (if old \<noteq> [] \<and> prefix old (c # cs)
      then new @ replace_from old new (drop (length old) (c # cs))
      else c # replace_from old new cs)"
  by pat_completeness auto
termination
  by (relation "measure (\<lambda>(old, new, s). length s)") auto

definition str_replace :: "string \<Rightarrow> string \<Rightarrow> string \<Rightarrow> string" where
  "str_replace s old new =
     (if old = [] then new @ concat (map (\<lambda>c. c # new) s) else replace_from old new s)"

subsection \<open>\<^verbatim>\<open>os.path\<close>\<close>

definition sep :: char where
  "sep = CHR ''/''"

definition extsep :: char where
  "extsep = CHR ''.''"

text \<open>\<open>head_part p\<close> is \<^verbatim>\<open>p[:i]\<close> and \<open>basename p\<close> is \<^verbatim>\<open>p[i:]\<close> for
  \<^verbatim>\<open>i = p.rfind('/') + 1\<close>.\<close>

definition head_part :: "path \<Rightarrow> path" where
  "head_part p = rev (dropWhile (\<lambda>c. c \<noteq> sep) (rev p))"

definition basename :: "path \<Rightarrow> path" where
  "basename p = rev (takeWhile (\<lambda>c. c \<noteq> sep) (rev p))"

definition rstrip_sep :: "path \<Rightarrow> path" where
  "rstrip_sep p = rev (dropWhile (\<lambda>c. c = sep) (rev p))"

text \<open>\<^verbatim>\<open>os.path.dirname\<close>: the head, without its trailing slashes unless it consists of
  slashes only.\<close>

definition dirname :: "path \<Rightarrow> path" where
  "dirname p =
     (let head = head_part p
      in if head \<noteq> [] \<and> head \<noteq> replicate (length head) sep then rstrip_sep head else head)"

text \<open>
  \<^verbatim>\<open>os.path.splitext\<close>: the extension starts at the last dot, provided that dot lies in
  the last component and some character of that component before it is not a dot;
  otherwise the extension is empty.
\<close>

definition splitext :: "path \<Rightarrow> path \<times> string" where
  "splitext p =
     (let b = basename p
      in if extsep \<in> set b then
           (let ext = extsep # rev (takeWhile (\<lambda>c. c \<noteq> extsep) (rev b));
                stem = rev (tl (dropWhile (\<lambda>c. c \<noteq> extsep) (rev b)))
            in if \<exists>c \<in> set stem. c \<noteq> extsep then (head_part p @ stem, ext) else (p, []))
         else (p, []))"

text \<open>\<^verbatim>\<open>os.path.join(a, b)\<close> with one component \<open>b\<close>.\<close>

definition path_join :: "path \<Rightarrow> path \<Rightarrow> path" where
  "path_join a b =
     (if b \<noteq> [] \<and> hd b = sep then b
      else if a = [] \<or> last a = sep then a @ b
      else a @ [sep] @ b)"

text \<open>Line 132 and line 138 of \<^verbatim>\<open>converter.py\<close>:
  \<^verbatim>\<open>temp_file = input_path.replace('.png', '_temp.png')\<close>.\<close>

definition temp_file_of :: "path \<Rightarrow> path" where
  "temp_file_of input_path = str_replace input_path ''.png'' ''_temp.png''"

text \<open>Lines 317 to 319: the output path derived from \<^verbatim>\<open>--output-dir\<close>.\<close>

definition derived_output_path :: "path \<Rightarrow> path \<Rightarrow> path" where
  "derived_output_path output_dir inp =
     (let input_basename = basename inp;
          output_filename = fst (splitext input_basename) @ ''.svg''
      in path_join output_dir output_filename)"

section \<open>Images, libraries and the file system\<close>

text \<open>
  The converter decodes, filters, encodes and traces images through PIL, rembg and vtracer.
  None of these is part of the repository: their results are parameters of the model
  (the record \<open>env\<close>), each of which may fail. What the program does with them, in which
  order and with which arguments, is modelled from the source. Every call into a library
  or the operating system and every line printed is recorded in a trace of events.
\<close>

type_synonym bytes = "nat list"

record image =
  mode :: string
  pixels :: bytes

datatype error =
    FileNotFoundError path
  | FileExistsError path
  | IsADirectoryError path
  | NotADirectoryError path
  | LibraryError string

datatype node = File bytes | Dir

type_synonym fs = "path \<rightharpoonup> node"

datatype image_filter = GaussianBlur real | UnsharpMask int int int | SHARPEN

datatype enhancer = Contrast | Color

text \<open>The keyword arguments that \<^verbatim>\<open>convert_to_svg\<close> passes on to vtracer unchanged
  (\<open>curve_mode\<close> is the argument \<^verbatim>\<open>mode\<close>; the name \<open>mode\<close> is the image's field).\<close>

record params =
  colormode :: string
  hierarchical :: string
  curve_mode :: string
  filter_speckle :: int
  color_precision :: int
  layer_difference :: int
  corner_threshold :: int
  length_threshold :: real
  max_iterations :: int
  splice_threshold :: int
  path_precision :: int

datatype message =
    RemovingBackground path
  | ConvertingToSvg path
  | SuccessfullyConverted path
  | ErrorDuringConversion error
  | OutputNotSpecified
  | ErrorReport error
  | Traceback error

datatype event =
    Stdout message
  | Stderr message
  | ImageOpen path
  | RembgRemove
  | ImageConvert string
  | ImageFilter image_filter
  | ImageEnhance enhancer real
  | ImageSave path
  | VtracerConvert path path params
  | OsMakedirs path
  | OsRemove path

record env =
  pil_open :: "bytes \<Rightarrow> error + image"
  pil_convert :: "string \<Rightarrow> image \<Rightarrow> error + image"
  pil_filter :: "image_filter \<Rightarrow> image \<Rightarrow> error + image"
  pil_enhance :: "enhancer \<Rightarrow> real \<Rightarrow> image \<Rightarrow> error + image"
  pil_encode :: "path \<Rightarrow> image \<Rightarrow> error + bytes"
  rembg :: "image \<Rightarrow> error + image"
  vtracer :: "bytes \<Rightarrow> params \<Rightarrow> error + bytes"

subsection \<open>Actions: a result or an exception, the events, the file system afterwards\<close>

type_synonym 'a action = "fs \<Rightarrow> (error + 'a) \<times> event list \<times> fs"

definition return :: "'a \<Rightarrow> 'a action" where
  "return x fs = (Inr x, [], fs)"

definition and_then :: "'a action \<Rightarrow> ('a \<Rightarrow> 'b action) \<Rightarrow> 'b action" where
  "and_then m f fs =
     (case m fs of
        (Inl e, evs, fs1) \<Rightarrow> (Inl e, evs, fs1)
      | (Inr x, evs, fs1) \<Rightarrow> (case f x fs1 of (r, evs2, fs2) \<Rightarrow> (r, evs @ evs2, fs2)))"

definition lib_call :: "event \<Rightarrow> error + 'a \<Rightarrow> 'a action" where
  "lib_call ev r fs = (r, [ev], fs)"

definition print :: "message \<Rightarrow> unit action" where
  "print m fs = (Inr (), [Stdout m], fs)"

definition result_of :: "(error + 'a) \<times> event list \<times> fs \<Rightarrow> error + 'a" where
  "result_of out = fst out"

definition trace_of :: "(error + 'a) \<times> event list \<times> fs \<Rightarrow> event list" where
  "trace_of out = fst (snd out)"

definition fs_of :: "(error + 'a) \<times> event list \<times> fs \<Rightarrow> fs" where
  "fs_of out = snd (snd out)"

subsection \<open>The file system\<close>

text \<open>\<^verbatim>\<open>os.path.exists\<close>; the empty path names nothing.\<close>

definition os_path_exists :: "fs \<Rightarrow> path \<Rightarrow> bool" where
  "os_path_exists fs p = (p \<noteq> [] \<and> fs p \<noteq> None)"

definition is_file :: "fs \<Rightarrow> path \<Rightarrow> bool" where
  "is_file fs p = (case fs p of Some (File b) \<Rightarrow> True | _ \<Rightarrow> False)"

definition read_file :: "path \<Rightarrow> fs \<Rightarrow> error + bytes" where
  "read_file p fs =
     (case fs p of
        None \<Rightarrow> Inl (FileNotFoundError p)
      | Some Dir \<Rightarrow> Inl (IsADirectoryError p)
      | Some (File b) \<Rightarrow> Inr b)"

text \<open>Writing creates or overwrites a file; it fails on the empty path, on a directory and
  where the directory of the path does not exist.\<close>

definition write_file :: "path \<Rightarrow> bytes \<Rightarrow> fs \<Rightarrow> error + fs" where
  "write_file p b fs =
     (if p = [] then Inl (FileNotFoundError p)
      else if fs p = Some Dir then Inl (IsADirectoryError p)
      else if dirname p \<noteq> [] \<and> fs (dirname p) \<noteq> Some Dir then Inl (FileNotFoundError p)
      else Inr (fs(p \<mapsto> File b)))"

definition os_remove :: "path \<Rightarrow> unit action" where
  "os_remove p fs =
     (case fs p of
        None \<Rightarrow> (Inl (FileNotFoundError p), [OsRemove p], fs)
      | Some Dir \<Rightarrow> (Inl (IsADirectoryError p), [OsRemove p], fs)
      | Some (File b) \<Rightarrow> (Inr (), [OsRemove p], fs(p := None)))"

text \<open>\<^verbatim>\<open>os.makedirs\<close> creates the leaf directory and every missing directory above it.\<close>

definition dir_chain :: "path \<Rightarrow> path list" where
  "dir_chain name =
     (let leaf = (if rstrip_sep name = [] then name else rstrip_sep name)
      in [take i leaf. i \<leftarrow> [1..<length leaf], leaf ! i = sep \<and> leaf ! (i - 1) \<noteq> sep] @ [leaf])"

definition os_makedirs :: "path \<Rightarrow> bool \<Rightarrow> unit action" where
  "os_makedirs name exist_ok fs =
     (let chain = dir_chain name; leaf = last chain
      in if name = [] then (Inl (FileNotFoundError name), [OsMakedirs name], fs)
         else if list_ex (is_file fs) (butlast chain)
           then (Inl (NotADirectoryError name), [OsMakedirs name], fs)
         else if is_file fs leaf \<or> (fs leaf = Some Dir \<and> \<not> exist_ok)
           then (Inl (FileExistsError name), [OsMakedirs name], fs)
         else (Inr (), [OsMakedirs name],
               foldl (\<lambda>f d. if f d = None then f(d \<mapsto> Dir) else f) fs chain))"

subsection \<open>Calls into PIL, rembg and vtracer\<close>

text \<open>\<^verbatim>\<open>Image.open(path)\<close>: the file is read and decoded.\<close>

definition image_open :: "env \<Rightarrow> path \<Rightarrow> image action" where
  "image_open E p fs =
     (case read_file p fs of
        Inl e \<Rightarrow> (Inl e, [ImageOpen p], fs)
      | Inr b \<Rightarrow> (pil_open E b, [ImageOpen p], fs))"

definition image_convert :: "env \<Rightarrow> string \<Rightarrow> image \<Rightarrow> image action" where
  "image_convert E m img = lib_call (ImageConvert m) (pil_convert E m img)"

definition image_filter :: "env \<Rightarrow> image_filter \<Rightarrow> image \<Rightarrow> image action" where
  "image_filter E f img = lib_call (ImageFilter f) (pil_filter E f img)"

definition image_enhance :: "env \<Rightarrow> enhancer \<Rightarrow> real \<Rightarrow> image \<Rightarrow> image action" where
  "image_enhance E k factor img = lib_call (ImageEnhance k factor) (pil_enhance E k factor img)"

definition rembg_remove :: "env \<Rightarrow> image \<Rightarrow> image action" where
  "rembg_remove E img = lib_call RembgRemove (rembg E img)"

text \<open>\<^verbatim>\<open>img.save(path)\<close>: the image is encoded in the format of the path's extension and
  written; a failed save leaves the file system as it was.\<close>

definition image_save :: "env \<Rightarrow> image \<Rightarrow> path \<Rightarrow> unit action" where
  "image_save E img p fs =
     (case pil_encode E p img of
        Inl e \<Rightarrow> (Inl e, [ImageSave p], fs)
      | Inr b \<Rightarrow>
          (case write_file p b fs of
             Inl e \<Rightarrow> (Inl e, [ImageSave p], fs)
           | Inr fs1 \<Rightarrow> (Inr (), [ImageSave p], fs1)))"

text \<open>\<^verbatim>\<open>vtracer.convert_image_to_svg_py(src, out, ...)\<close> reads \<open>src\<close>, traces it and writes
  the SVG to \<open>out\<close>; it touches no other file.\<close>

definition convert_image_to_svg_py :: "env \<Rightarrow> path \<Rightarrow> path \<Rightarrow> params \<Rightarrow> unit action" where
  "convert_image_to_svg_py E src out ps fs =
     (case read_file src fs of
        Inl e \<Rightarrow> (Inl e, [VtracerConvert src out ps], fs)
      | Inr b \<Rightarrow>
          (case vtracer E b ps of
             Inl e \<Rightarrow> (Inl e, [VtracerConvert src out ps], fs)
           | Inr svg \<Rightarrow>
               (case write_file out svg fs of
                  Inl e \<Rightarrow> (Inl e, [VtracerConvert src out ps], fs)
                | Inr fs1 \<Rightarrow> (Inr (), [VtracerConvert src out ps], fs1))))"

section \<open>The preprocessor\<close>

text \<open>\<^verbatim>\<open>preprocess_image\<close>, lines 23 to 64.\<close>

definition preprocess_image :: "env \<Rightarrow> image \<Rightarrow> bool \<Rightarrow> bool \<Rightarrow> image action" where
  "preprocess_image E img enhance_edges ultra_quality =
     and_then (if mode img \<noteq> ''RGBA'' then image_convert E ''RGBA'' img else return img)
       (\<lambda>img.
          if enhance_edges then
            if ultra_quality then
              and_then (image_filter E (GaussianBlur 0.5) img) (\<lambda>img.
              and_then (image_filter E (UnsharpMask 2 150 3) img) (\<lambda>img.
              and_then (image_enhance E Contrast 1.4 img) (\<lambda>img.
              image_enhance E Color 1.1 img)))
            else
              and_then (image_filter E SHARPEN img) (\<lambda>img.
              image_enhance E Contrast 1.2 img)
          else return img)"

section \<open>The pipeline\<close>

text \<open>
  The body of the \<^verbatim>\<open>try\<close> statement of \<^verbatim>\<open>convert_to_svg\<close>, lines 119 to 162, in two
  parts. \<open>working_image\<close> is lines 120 to 142 up to the assignment of \<^verbatim>\<open>temp_file\<close>: it
  yields the image to stage, or \<open>None\<close> where the input file is traced directly (line 142).
  An exception raised there leaves \<^verbatim>\<open>temp_file\<close> at \<^verbatim>\<open>None\<close>.
\<close>

definition working_image :: "env \<Rightarrow> path \<Rightarrow> bool \<Rightarrow> bool \<Rightarrow> bool \<Rightarrow> image option action" where
  "working_image E input_path remove_background enhance_quality ultra_quality =
     and_then (image_open E input_path) (\<lambda>img.
       if remove_background then
         and_then (print (RemovingBackground input_path)) (\<lambda>_.
         and_then (rembg_remove E img) (\<lambda>img_no_bg.
         and_then (if enhance_quality then preprocess_image E img_no_bg True ultra_quality
                   else return img_no_bg) (\<lambda>img_no_bg.
         return (Some img_no_bg))))
       else if enhance_quality then
         and_then (preprocess_image E img False ultra_quality) (\<lambda>img. return (Some img))
       else return None)"

text \<open>The rest of the body: the save to \<^verbatim>\<open>temp_file\<close> where an image is staged, then
  lines 145 to 162.\<close>

definition stage_and_trace :: "env \<Rightarrow> path \<Rightarrow> path \<Rightarrow> params \<Rightarrow> image option \<Rightarrow> unit action" where
  "stage_and_trace E input_path output_path ps staged =
     and_then
       (case staged of
          Some img \<Rightarrow>
            and_then (image_save E img (temp_file_of input_path)) (\<lambda>_.
            return (temp_file_of input_path))
        | None \<Rightarrow> return input_path)
       (\<lambda>processing_file.
          and_then (print (ConvertingToSvg processing_file)) (\<lambda>_.
          and_then (convert_image_to_svg_py E processing_file output_path ps) (\<lambda>_.
          print (SuccessfullyConverted output_path))))"

text \<open>The body with the value of \<^verbatim>\<open>temp_file\<close> at its end, whether it ends normally or
  with an exception.\<close>

definition try_body ::
  "env \<Rightarrow> path \<Rightarrow> path \<Rightarrow> bool \<Rightarrow> params \<Rightarrow> bool \<Rightarrow> bool \<Rightarrow> fs
     \<Rightarrow> path option \<times> (error + unit) \<times> event list \<times> fs" where
  "try_body E input_path output_path remove_background ps enhance_quality ultra_quality fs =
     (case working_image E input_path remove_background enhance_quality ultra_quality fs of
        (Inl e, evs, fs1) \<Rightarrow> (None, Inl e, evs, fs1)
      | (Inr staged, evs, fs1) \<Rightarrow>
          (case stage_and_trace E input_path output_path ps staged fs1 of
             (r, evs2, fs2) \<Rightarrow>
               (case staged of
                  Some img \<Rightarrow> (Some (temp_file_of input_path), r, evs @ evs2, fs2)
                | None \<Rightarrow> (None, r, evs @ evs2, fs2))))"

text \<open>
  \<^verbatim>\<open>convert_to_svg\<close>, lines 107 to 171: the check of the input, the output directory,
  the body, the \<^verbatim>\<open>except\<close> clause that prints and raises again, and the \<^verbatim>\<open>finally\<close>
  clause. An exception of \<^verbatim>\<open>os.remove\<close> in the \<^verbatim>\<open>finally\<close> clause replaces the result.
\<close>

definition convert_to_svg ::
  "env \<Rightarrow> path \<Rightarrow> path \<Rightarrow> bool \<Rightarrow> params \<Rightarrow> bool \<Rightarrow> bool \<Rightarrow> unit action" where
  "convert_to_svg E input_path output_path remove_background ps enhance_quality ultra_quality fs =
     (if \<not> os_path_exists fs input_path then (Inl (FileNotFoundError input_path), [], fs)
      else
        (case (let output_dir = dirname output_path
               in if output_dir \<noteq> [] \<and> \<not> os_path_exists fs output_dir
                  then os_makedirs output_dir False fs else return () fs) of
           (Inl e, evs0, fs0) \<Rightarrow> (Inl e, evs0, fs0)
         | (Inr u, evs0, fs0) \<Rightarrow>
             (case try_body E input_path output_path remove_background ps
                     enhance_quality ultra_quality fs0 of
                (temp_file, r, evs1, fs1) \<Rightarrow>
                  (let evs2 = (case r of
                                 Inl e \<Rightarrow> [Stdout (ErrorDuringConversion e)]
                               | Inr u \<Rightarrow> [])
                   in case temp_file of
                        None \<Rightarrow> (r, evs0 @ evs1 @ evs2, fs1)
                      | Some t \<Rightarrow>
                          if t \<noteq> [] \<and> os_path_exists fs1 t then
                            (case os_remove t fs1 of
                               (Inl e, evs3, fs3) \<Rightarrow> (Inl e, evs0 @ evs1 @ evs2 @ evs3, fs3)
                             | (Inr u, evs3, fs3) \<Rightarrow> (r, evs0 @ evs1 @ evs2 @ evs3, fs3))
                          else (r, evs0 @ evs1 @ evs2, fs1)))))"

section \<open>The command line\<close>

text \<open>The parsed arguments (\<^verbatim>\<open>args\<close>); an option that was not given is \<open>None\<close>.\<close>

record args =
  arg_input :: path
  arg_output :: "path option"
  arg_output_dir :: "path option"
  arg_keep_bg :: bool
  arg_no_enhance :: bool
  arg_ultra_quality :: bool
  arg_params :: params

text \<open>The test \<^verbatim>\<open>if args.output_dir:\<close> and \<^verbatim>\<open>elif args.output:\<close> of an optional
  string: \<^verbatim>\<open>None\<close> and the empty string are false.\<close>

definition truthy :: "string option \<Rightarrow> string option" where
  "truthy s = (case s of None \<Rightarrow> None | Some v \<Rightarrow> if v \<noteq> [] then Some v else None)"

text \<open>Lines 326 to 347: the call of \<^verbatim>\<open>convert_to_svg\<close>; an exception is printed to the
  error stream and the process exits with code 1.\<close>

definition run_conversion :: "env \<Rightarrow> args \<Rightarrow> path \<Rightarrow> fs \<Rightarrow> int \<times> event list \<times> fs" where
  "run_conversion E a output_path fs =
     (case convert_to_svg E (arg_input a) output_path (\<not> arg_keep_bg a) (arg_params a)
             (\<not> arg_no_enhance a) (arg_ultra_quality a) fs of
        (Inl e, evs, fs1) \<Rightarrow> (1, evs @ [Stderr (ErrorReport e)], fs1)
      | (Inr u, evs, fs1) \<Rightarrow> (0, evs, fs1))"

text \<open>\<^verbatim>\<open>main\<close> after the parsing of the arguments, lines 311 to 347: the exit code, the
  events and the file system. An exception of \<^verbatim>\<open>os.makedirs\<close> on line 314 is not caught:
  the interpreter prints the traceback and exits with code 1.\<close>

definition main :: "env \<Rightarrow> args \<Rightarrow> fs \<Rightarrow> int \<times> event list \<times> fs" where
  "main E a fs =
     (case truthy (arg_output_dir a) of
        Some output_dir \<Rightarrow>
          (case os_makedirs output_dir True fs of
             (Inl e, evs, fs1) \<Rightarrow> (1, evs @ [Stderr (Traceback e)], fs1)
           | (Inr u, evs, fs1) \<Rightarrow>
               (case run_conversion E a (derived_output_path output_dir (arg_input a)) fs1 of
                  (code, evs2, fs2) \<Rightarrow> (code, evs @ evs2, fs2)))
      | None \<Rightarrow>
          (case truthy (arg_output a) of
             Some output_path \<Rightarrow> run_conversion E a output_path fs
           | None \<Rightarrow> (1, [Stderr OutputNotSpecified], fs)))"

section \<open>Defaults and stand-ins for the libraries\<close>

text \<open>The defaults of the conversion parameters, lines 71 to 81 (and of the command line).\<close>

definition default_params :: params where
  "default_params =
     \<lparr>colormode = ''color'', hierarchical = ''stacked'', curve_mode = ''spline'',
      filter_speckle = 12, color_precision = 7, layer_difference = 32,
      corner_threshold = 60, length_threshold = 4.0, max_iterations = 10,
      splice_threshold = 45, path_precision = 8\<rparr>"

text \<open>Stand-ins for the libraries in which every call succeeds: decoding gives an RGB image,
  background removal gives an RGBA image, the filters leave the pixels alone and the
  tracer writes a fixed SVG.\<close>

definition fake_env :: env where
  "fake_env =
     \<lparr>pil_open = (\<lambda>b. Inr \<lparr>mode = ''RGB'', pixels = b\<rparr>),
      pil_convert = (\<lambda>m img. Inr (img\<lparr>mode := m\<rparr>)),
      pil_filter = (\<lambda>f img. Inr img),
      pil_enhance = (\<lambda>k factor img. Inr img),
      pil_encode = (\<lambda>p img. Inr (pixels img)),
      rembg = (\<lambda>img. Inr (img\<lparr>mode := ''RGBA''\<rparr>)),
      vtracer = (\<lambda>b ps. Inr [60, 115, 118, 103, 62])\<rparr>"

text \<open>The same with a tracer that raises.\<close>

definition failing_tracer_env :: env where
  "failing_tracer_env = fake_env\<lparr>vtracer := (\<lambda>b ps. Inl (LibraryError ''trace''))\<rparr>"

definition default_args :: "path \<Rightarrow> args" where
  "default_args inp =
     \<lparr>arg_input = inp, arg_output = None, arg_output_dir = None, arg_keep_bg = False,
      arg_no_enhance = False, arg_ultra_quality = False, arg_params = default_params\<rparr>"

text \<open>A file system with one image in the current directory.\<close>

definition logo_fs :: "path \<Rightarrow> fs" where
  "logo_fs p = Map.empty(p \<mapsto> File [1, 2, 3])"

text \<open>Whether a trace holds a contrast adjustment (\<^verbatim>\<open>ImageEnhance.Contrast\<close>).\<close>

definition contrast_adjusted :: "event list \<Rightarrow> bool" where
  "contrast_adjusted evs =
     list_ex (\<lambda>ev. case ev of ImageEnhance Contrast factor \<Rightarrow> True | _ \<Rightarrow> False) evs"

section \<open>Facts about paths\<close>










text \<open>Where \<^verbatim>\<open>.png\<close> occurs in the input path once, as its suffix, the staged path is the
  suffix substitution.\<close>

lemma prefix_of_append_short:
  "prefix xs (ys @ zs) \<Longrightarrow> length xs \<le> length ys \<Longrightarrow> prefix xs ys"
  by (metis prefix_append prefix_length_le prefix_order.antisym prefix_def append_eq_append_conv_if append_take_drop_id take_is_prefix)

lemma replace_from_single_suffix:
  assumes "old \<noteq> []" and "\<not> sublist old (stem @ butlast old)"
  shows "replace_from old new (stem @ old) = stem @ new"
  using assms(2)
proof (induction stem)
  case Nil
  from assms(1) obtain c cs where old: "old = c # cs"
    by (cases old) auto
  then show ?case
    by simp
next
  case (Cons c stem)
  have "\<not> prefix old (c # stem @ old)"
  proof
    assume p: "prefix old (c # stem @ old)"
    have "c # stem @ old = (c # stem @ butlast old) @ [last old]"
      using assms(1) by simp
    moreover have "length old \<le> length (c # stem @ butlast old)"
      by simp
    ultimately have "prefix old (c # stem @ butlast old)"
      using p prefix_of_append_short [of old "c # stem @ butlast old" "[last old]"] by simp
    then show False
      using Cons.prems by (auto dest: prefix_imp_sublist)
  qed
  moreover have "\<not> sublist old (stem @ butlast old)"
    using Cons.prems by (simp add: sublist_Cons_right)
  ultimately show ?case
    using Cons.IH by simp
qed

lemma temp_file_of_single_suffix:
  "\<not> sublist ''.png'' (stem @ ''.pn'') \<Longrightarrow> temp_file_of (stem @ ''.png'') = stem @ ''_temp.png''"
  using replace_from_single_suffix [of "''.png''" stem "''_temp.png''"]
  by (simp add: temp_file_of_def str_replace_def)

section \<open>Results, traces and file systems of the actions\<close>

text \<open>The three components of a sequence of actions, and of each primitive action.\<close>

named_theorems action_simps

lemma trace_and_then [action_simps]:
  "trace_of (and_then m f fs) =
     trace_of (m fs) @ (case result_of (m fs) of Inl e \<Rightarrow> [] | Inr x \<Rightarrow> trace_of (f x (fs_of (m fs))))"
  by (simp add: trace_of_def result_of_def fs_of_def and_then_def split: prod.splits sum.splits)

lemma result_and_then [action_simps]:
  "result_of (and_then m f fs) =
     (case result_of (m fs) of Inl e \<Rightarrow> Inl e | Inr x \<Rightarrow> result_of (f x (fs_of (m fs))))"
  by (simp add: trace_of_def result_of_def fs_of_def and_then_def split: prod.splits sum.splits)

lemma fs_and_then [action_simps]:
  "fs_of (and_then m f fs) =
     (case result_of (m fs) of Inl e \<Rightarrow> fs_of (m fs) | Inr x \<Rightarrow> fs_of (f x (fs_of (m fs))))"
  by (simp add: trace_of_def result_of_def fs_of_def and_then_def split: prod.splits sum.splits)

lemma return_simps [action_simps]:
  "result_of (return x fs) = Inr x" "trace_of (return x fs) = []" "fs_of (return x fs) = fs"
  by (simp_all add: return_def result_of_def trace_of_def fs_of_def)

lemma lib_call_simps [action_simps]:
  "result_of (lib_call ev r fs) = r" "trace_of (lib_call ev r fs) = [ev]"
  "fs_of (lib_call ev r fs) = fs"
  by (simp_all add: lib_call_def result_of_def trace_of_def fs_of_def)

lemma print_simps [action_simps]:
  "result_of (print m fs) = Inr ()" "trace_of (print m fs) = [Stdout m]" "fs_of (print m fs) = fs"
  by (simp_all add: print_def result_of_def trace_of_def fs_of_def)

lemma image_open_simps [action_simps]:
  "trace_of (image_open E p fs) = [ImageOpen p]" "fs_of (image_open E p fs) = fs"
  "result_of (image_open E p fs) = (case read_file p fs of Inl e \<Rightarrow> Inl e | Inr b \<Rightarrow> pil_open E b)"
  by (simp_all add: image_open_def result_of_def trace_of_def fs_of_def split: sum.splits)

lemma image_save_trace [action_simps]:
  "trace_of (image_save E img p fs) = [ImageSave p]"
  by (simp add: image_save_def trace_of_def split: sum.splits)

lemma convert_image_to_svg_py_trace [action_simps]:
  "trace_of (convert_image_to_svg_py E src out ps fs) = [VtracerConvert src out ps]"
  by (simp add: convert_image_to_svg_py_def trace_of_def split: sum.splits)

lemma os_remove_trace [action_simps]:
  "trace_of (os_remove p fs) = [OsRemove p]"
  by (simp add: os_remove_def trace_of_def split: option.splits node.splits)

lemma os_makedirs_trace [action_simps]:
  "trace_of (os_makedirs p ok fs) = [OsMakedirs p]"
  by (simp add: os_makedirs_def trace_of_def Let_def)

lemmas library_calls = image_convert_def image_filter_def image_enhance_def rembg_remove_def

lemma preprocess_image_fs:
  "fs_of (preprocess_image E img enhance_edges ultra_quality fs) = fs"
  by (simp add: preprocess_image_def action_simps library_calls split: sum.splits)

lemma preprocess_image_events:
  "ev \<in> set (trace_of (preprocess_image E img enhance_edges ultra_quality fs)) \<Longrightarrow>
     ev = ImageConvert ''RGBA'' \<or>
     (enhance_edges \<and> ultra_quality \<and>
        ev \<in> {ImageFilter (GaussianBlur 0.5), ImageFilter (UnsharpMask 2 150 3),
               ImageEnhance Contrast 1.4, ImageEnhance Color 1.1}) \<or>
     (enhance_edges \<and> \<not> ultra_quality \<and>
        ev \<in> {ImageFilter SHARPEN, ImageEnhance Contrast 1.2})"
  by (auto simp: preprocess_image_def action_simps library_calls split: sum.splits if_splits)

lemma working_image_fs:
  "fs_of (working_image E input_path remove_background enhance_quality ultra_quality fs) = fs"
  by (simp add: working_image_def action_simps library_calls preprocess_image_fs split: sum.splits)

lemma working_image_events:
  "ev \<in> set (trace_of (working_image E input_path remove_background enhance_quality ultra_quality fs)) \<Longrightarrow>
     ev = ImageOpen input_path \<or>
     (remove_background \<and> (ev = Stdout (RemovingBackground input_path) \<or> ev = RembgRemove)) \<or>
     (enhance_quality \<and> ev = ImageConvert ''RGBA'') \<or>
     (remove_background \<and> enhance_quality \<and> ultra_quality \<and>
        ev \<in> {ImageFilter (GaussianBlur 0.5), ImageFilter (UnsharpMask 2 150 3),
               ImageEnhance Contrast 1.4, ImageEnhance Color 1.1}) \<or>
     (remove_background \<and> enhance_quality \<and> \<not> ultra_quality \<and>
        ev \<in> {ImageFilter SHARPEN, ImageEnhance Contrast 1.2})"
  by (auto simp: working_image_def action_simps library_calls
      dest!: preprocess_image_events split: sum.splits if_splits)


lemma write_file_Inr:
  "write_file p b fs = Inr fs1 \<Longrightarrow> fs1 = fs(p \<mapsto> File b) \<and> p \<noteq> [] \<and> fs p \<noteq> Some Dir"
  by (auto simp: write_file_def split: if_splits)

lemma is_file_upd: "is_file (fs(p \<mapsto> File b)) q = (q = p \<or> is_file fs q)"
  by (simp add: is_file_def)

lemma image_save_keeps_files:
  "is_file fs p \<Longrightarrow> is_file (fs_of (image_save E img t fs)) p"
  by (auto simp: image_save_def fs_of_def is_file_upd dest!: write_file_Inr split: sum.splits)

lemma convert_image_to_svg_py_keeps_files:
  "is_file fs p \<Longrightarrow> is_file (fs_of (convert_image_to_svg_py E src out ps fs)) p"
  by (auto simp: convert_image_to_svg_py_def fs_of_def is_file_upd dest!: write_file_Inr
      split: sum.splits)

lemma stage_and_trace_keeps_files:
  "is_file fs p \<Longrightarrow> is_file (fs_of (stage_and_trace E input_path output_path ps staged fs)) p"
  by (auto simp: stage_and_trace_def action_simps image_save_keeps_files
        convert_image_to_svg_py_keeps_files split: sum.splits option.splits)

lemma stage_and_trace_events:
  "ev \<in> set (trace_of (stage_and_trace E input_path output_path ps staged fs)) \<Longrightarrow>
     (staged \<noteq> None \<and> ev = ImageSave (temp_file_of input_path)) \<or>
     ev = Stdout (ConvertingToSvg (if staged = None then input_path else temp_file_of input_path)) \<or>
     ev = VtracerConvert (if staged = None then input_path else temp_file_of input_path)
            output_path ps \<or>
     ev = Stdout (SuccessfullyConverted output_path)"
  by (auto simp: stage_and_trace_def action_simps split: sum.splits option.splits if_splits)

lemma working_image_staged:
  "result_of (working_image E input_path remove_background enhance_quality ultra_quality fs)
     = Inr staged \<Longrightarrow>
   is_file fs input_path \<and> (staged \<noteq> None) = (remove_background \<or> enhance_quality)"
  by (auto simp: working_image_def action_simps read_file_def is_file_def
      split: sum.splits if_splits option.splits node.splits)

lemma try_body_unfold:
  "try_body E input_path output_path remove_background ps enhance_quality ultra_quality fs =
     (let W = working_image E input_path remove_background enhance_quality ultra_quality fs
      in case result_of W of
           Inl e \<Rightarrow> (None, Inl e, trace_of W, fs)
         | Inr staged \<Rightarrow>
             (let S = stage_and_trace E input_path output_path ps staged fs
              in (if staged = None then None else Some (temp_file_of input_path),
                  result_of S, trace_of W @ trace_of S, fs_of S)))"
  using working_image_fs [of E input_path remove_background enhance_quality ultra_quality fs]
  by (auto simp: try_body_def result_of_def trace_of_def fs_of_def Let_def
      split: sum.splits prod.splits option.splits)

lemma try_body_temp_file:
  assumes "try_body E input_path output_path remove_background ps enhance_quality ultra_quality fs
             = (temp_file, r, evs, fs1)"
  shows "temp_file = None \<or> temp_file = Some (temp_file_of input_path)"
    and "temp_file \<noteq> None \<Longrightarrow> is_file fs input_path \<and> (remove_background \<or> enhance_quality)"
    and "ImageSave t \<in> set evs \<Longrightarrow> temp_file = Some t"
    and "is_file fs p \<Longrightarrow> is_file fs1 p"
proof -
  show "temp_file = None \<or> temp_file = Some (temp_file_of input_path)"
    using assms by (auto simp: try_body_unfold Let_def split: sum.splits if_splits)
  show "temp_file \<noteq> None \<Longrightarrow> is_file fs input_path \<and> (remove_background \<or> enhance_quality)"
    using assms
    by (auto simp: try_body_unfold Let_def dest!: working_image_staged split: sum.splits if_splits)
  show "ImageSave t \<in> set evs \<Longrightarrow> temp_file = Some t"
    using assms
    by (auto simp: try_body_unfold Let_def dest!: working_image_events stage_and_trace_events
        split: sum.splits if_splits)
  show "is_file fs p \<Longrightarrow> is_file fs1 p"
    using assms
    by (auto simp: try_body_unfold Let_def stage_and_trace_keeps_files split: sum.splits)
qed


lemma try_body_events:
  assumes "try_body E input_path output_path remove_background ps enhance_quality ultra_quality fs
             = (temp_file, r, evs, fs1)"
    and "ev \<in> set evs"
  shows "ev \<in> set (trace_of (working_image E input_path remove_background enhance_quality
                      ultra_quality fs)) \<or>
         (\<exists>staged. (staged \<noteq> None) = (remove_background \<or> enhance_quality) \<and>
            ev \<in> set (trace_of (stage_and_trace E input_path output_path ps staged fs)))"
  using assms
  by (auto simp: try_body_unfold Let_def dest!: working_image_staged split: sum.splits if_splits)

lemma convert_to_svg_events:
  assumes "ev \<in> set (trace_of (convert_to_svg E input_path output_path remove_background ps
                        enhance_quality ultra_quality fs))"
  shows "ev = OsMakedirs (dirname output_path) \<or>
     ev = ImageOpen input_path \<or>
     (remove_background \<and> (ev = Stdout (RemovingBackground input_path) \<or> ev = RembgRemove)) \<or>
     (enhance_quality \<and> ev = ImageConvert ''RGBA'') \<or>
     (remove_background \<and> enhance_quality \<and> ultra_quality \<and>
        ev \<in> {ImageFilter (GaussianBlur 0.5), ImageFilter (UnsharpMask 2 150 3),
               ImageEnhance Contrast 1.4, ImageEnhance Color 1.1}) \<or>
     (remove_background \<and> enhance_quality \<and> \<not> ultra_quality \<and>
        ev \<in> {ImageFilter SHARPEN, ImageEnhance Contrast 1.2}) \<or>
     ((remove_background \<or> enhance_quality) \<and>
        (ev = ImageSave (temp_file_of input_path) \<or> ev = OsRemove (temp_file_of input_path))) \<or>
     ev = Stdout (ConvertingToSvg
            (if remove_background \<or> enhance_quality then temp_file_of input_path
             else input_path)) \<or>
     ev = VtracerConvert (if remove_background \<or> enhance_quality then temp_file_of input_path
             else input_path)
            output_path ps \<or>
     ev = Stdout (SuccessfullyConverted output_path) \<or>
     (\<exists>e. ev = Stdout (ErrorDuringConversion e))"
proof -
  let ?d = "dirname output_path"
  let ?m = "if ?d \<noteq> [] \<and> \<not> os_path_exists fs ?d then os_makedirs ?d False fs else return () fs"
  obtain r0 evs0 fs0 where m: "?m = (r0, evs0, fs0)"
    by (cases ?m) auto
  have evs0: "set evs0 \<subseteq> {OsMakedirs ?d}"
    using m os_makedirs_trace [of ?d False fs]
    by (auto simp: trace_of_def return_def split: if_splits)
  obtain tf r1 evs1 fs1 where b: "try_body E input_path output_path remove_background ps
      enhance_quality ultra_quality fs0 = (tf, r1, evs1, fs1)"
    using prod_cases4 by blast
  have tf: "tf \<noteq> None \<Longrightarrow> remove_background \<or> enhance_quality"
    using try_body_temp_file(2) [OF b] by blast
  have tf': "tf = None \<or> tf = Some (temp_file_of input_path)"
    using try_body_temp_file(1) [OF b] .
  from assms consider "ev \<in> set evs0" | "ev \<in> set evs1"
    | "\<exists>e. ev = Stdout (ErrorDuringConversion e)"
    | "tf \<noteq> None" "ev = OsRemove (temp_file_of input_path)"
    using m b tf' os_remove_trace [of "temp_file_of input_path" fs1]
    by (auto simp: convert_to_svg_def trace_of_def Let_def
        split: if_splits sum.splits prod.splits option.splits)
  then show ?thesis
  proof cases
    case 1
    then show ?thesis using evs0 by auto
  next
    case 2
    from try_body_events [OF b 2] show ?thesis
      by (auto dest!: working_image_events stage_and_trace_events)
  next
    case 3
    then show ?thesis by blast
  next
    case 4
    then show ?thesis using tf by blast
  qed
qed

lemma preprocess_image_no_edges:
  "result_of (preprocess_image E img False ultra_quality fs)
     = (if mode img \<noteq> ''RGBA'' then pil_convert E ''RGBA'' img else Inr img)"
  "trace_of (preprocess_image E img False ultra_quality fs)
     = (if mode img \<noteq> ''RGBA'' then [ImageConvert ''RGBA''] else [])"
  by (simp_all add: preprocess_image_def action_simps library_calls split: sum.splits)

lemma replace_from_nonempty: "s \<noteq> [] \<Longrightarrow> new \<noteq> [] \<Longrightarrow> replace_from old new s \<noteq> []"
  by (cases s) auto

lemma temp_file_of_nonempty: "input_path \<noteq> [] \<Longrightarrow> temp_file_of input_path \<noteq> []"
  by (simp add: temp_file_of_def str_replace_def replace_from_nonempty)



lemma convert_to_svg_staged:
  assumes "ImageSave t \<in> set (trace_of (convert_to_svg E input_path output_path
             remove_background ps enhance_quality ultra_quality fs))"
  shows "\<exists>fs0 r1 evs1 fs1.
           try_body E input_path output_path remove_background ps enhance_quality ultra_quality fs0
             = (Some t, r1, evs1, fs1) \<and>
           t = temp_file_of input_path \<and> t \<noteq> [] \<and> is_file fs0 input_path \<and>
           fs_of (convert_to_svg E input_path output_path remove_background ps enhance_quality
                    ultra_quality fs) = (if is_file fs1 t then fs1(t := None) else fs1) \<and>
           (is_file fs1 t \<longrightarrow>
              OsRemove t \<in> set (trace_of (convert_to_svg E input_path output_path
                remove_background ps enhance_quality ultra_quality fs)))"
proof -
  let ?out = "convert_to_svg E input_path output_path remove_background ps enhance_quality
                ultra_quality fs"
  have ex: "os_path_exists fs input_path"
    using assms by (auto simp: convert_to_svg_def trace_of_def split: if_splits)
  then have ne: "input_path \<noteq> []"
    by (simp add: os_path_exists_def)
  let ?d = "dirname output_path"
  let ?m = "if ?d \<noteq> [] \<and> \<not> os_path_exists fs ?d then os_makedirs ?d False fs else return () fs"
  obtain r0 evs0 fs0 where m: "?m = (r0, evs0, fs0)"
    by (cases ?m) auto
  have evs0: "set evs0 \<subseteq> {OsMakedirs ?d}"
    using m os_makedirs_trace [of ?d False fs]
    by (auto simp: trace_of_def return_def split: if_splits)
  obtain u where r0: "r0 = Inr u"
    using assms ex m evs0 by (cases r0) (auto simp: convert_to_svg_def trace_of_def Let_def)
  obtain tf r1 evs1 fs1 where b: "try_body E input_path output_path remove_background ps
      enhance_quality ultra_quality fs0 = (tf, r1, evs1, fs1)"
    using prod_cases4 by blast
  have tf': "tf = None \<or> tf = Some (temp_file_of input_path)"
    using try_body_temp_file(1) [OF b] .
  have "ImageSave t \<in> set evs1"
    using assms ex m r0 b evs0 tf' os_remove_trace [of "temp_file_of input_path" fs1]
    by (auto simp: convert_to_svg_def trace_of_def Let_def
        split: if_splits sum.splits prod.splits option.splits)
  then have tf: "tf = Some t"
    using try_body_temp_file(3) [OF b] by blast
  with tf' have t: "t = temp_file_of input_path"
    by simp
  with ne have tne: "t \<noteq> []"
    by (simp add: temp_file_of_nonempty)
  have inp: "is_file fs0 input_path"
    using try_body_temp_file(2) [OF b] tf by simp
  have fs: "fs_of ?out = (if is_file fs1 t then fs1(t := None) else fs1)"
    using ex m r0 b tf tne
    by (auto simp: convert_to_svg_def fs_of_def Let_def os_remove_def is_file_def
        os_path_exists_def split: sum.splits option.splits node.splits)
  have rm: "is_file fs1 t \<longrightarrow> OsRemove t \<in> set (trace_of ?out)"
    using ex m r0 b tf tne
    by (auto simp: convert_to_svg_def trace_of_def Let_def os_remove_def is_file_def
        os_path_exists_def split: sum.splits option.splits node.splits)
  from b tf t tne inp fs rm show ?thesis
    by blast
qed

lemma run_conversion_events:
  "ev \<in> set (fst (snd (run_conversion E a output_path fs))) \<Longrightarrow>
     (\<exists>e. ev = Stderr (ErrorReport e)) \<or>
     ev \<in> set (trace_of (convert_to_svg E (arg_input a) output_path (\<not> arg_keep_bg a)
                  (arg_params a) (\<not> arg_no_enhance a) (arg_ultra_quality a) fs))"
  by (auto simp: run_conversion_def trace_of_def split: prod.splits sum.splits)

lemma main_events:
  assumes "ev \<in> set (fst (snd (main E a fs)))"
  shows "(\<exists>m. ev = Stderr m) \<or> (\<exists>d. ev = OsMakedirs d) \<or>
     (\<exists>output_path fs1.
        (case truthy (arg_output_dir a) of
           Some d \<Rightarrow> output_path = derived_output_path d (arg_input a)
         | None \<Rightarrow> truthy (arg_output a) = Some output_path) \<and>
        ev \<in> set (trace_of (convert_to_svg E (arg_input a) output_path (\<not> arg_keep_bg a)
                  (arg_params a) (\<not> arg_no_enhance a) (arg_ultra_quality a) fs1)))"
proof (cases "truthy (arg_output_dir a)")
  case None
  then show ?thesis
    using assms by (auto simp: main_def dest!: run_conversion_events split: option.splits)
next
  case (Some d)
  obtain r evs fs1 where m: "os_makedirs d True fs = (r, evs, fs1)"
    by (cases "os_makedirs d True fs") auto
  then have evs: "evs = [OsMakedirs d]"
    using os_makedirs_trace [of d True fs] by (simp add: trace_of_def)
  let ?run = "run_conversion E a (derived_output_path d (arg_input a)) fs1"
  from assms Some m evs have "ev = OsMakedirs d \<or> (\<exists>e. ev = Stderr (Traceback e)) \<or>
      ev \<in> set (fst (snd ?run))"
    by (auto simp: main_def split: prod.splits sum.splits)
  then show ?thesis
    using Some run_conversion_events [of ev E a "derived_output_path d (arg_input a)" fs1]
    by auto
qed

lemmas run_defs = default_args_def default_params_def main_def truthy_def run_conversion_def
  convert_to_svg_def os_path_exists_def logo_fs_def dirname_def head_part_def rstrip_sep_def
  sep_def try_body_def working_image_def preprocess_image_def stage_and_trace_def and_then_def
  return_def print_def lib_call_def library_calls image_open_def read_file_def fake_env_def
  failing_tracer_env_def temp_file_of_def str_replace_def image_save_def write_file_def
  convert_image_to_svg_py_def os_remove_def os_makedirs_def dir_chain_def is_file_def
  result_of_def trace_of_def fs_of_def

section \<open>Properties of the orchestrator's entry and of the command line\<close>

text \<open>
  Claim C5. Where the input path does not exist, \<^verbatim>\<open>convert_to_svg\<close> raises the not-found
  error at once: no library or operating-system call is made, nothing is printed, and the
  file system is left as it was, so neither an output file nor an output directory is
  created.
\<close>

theorem convert_to_svg_input_not_found:
  "\<not> os_path_exists fs input_path \<Longrightarrow>
     convert_to_svg E input_path output_path remove_background ps enhance_quality ultra_quality fs
       = (Inl (FileNotFoundError input_path), [], fs)"
  by (simp add: convert_to_svg_def)

theorem convert_to_svg_input_not_found_witness:
  "\<not> os_path_exists (logo_fs ''logo.png'') ''missing.png'' \<and>
   convert_to_svg fake_env ''missing.png'' ''out/missing.svg'' True default_params True False
       (logo_fs ''logo.png'')
     = (Inl (FileNotFoundError ''missing.png''), [], logo_fs ''logo.png'')"
  using convert_to_svg_input_not_found [of "logo_fs ''logo.png''" "''missing.png''" fake_env
      "''out/missing.svg''" True default_params True False]
  by (simp add: os_path_exists_def logo_fs_def)

text \<open>
  Claim C10. Where neither the positional output path nor \<^verbatim>\<open>--output-dir\<close> is given,
  \<^verbatim>\<open>main\<close> exits with code 1; its only event is the usage error on the error stream (so
  no conversion is attempted) and the file system is left as it was.
\<close>

theorem main_output_not_specified:
  "arg_output a = None \<Longrightarrow> arg_output_dir a = None \<Longrightarrow>
     main E a fs = (1, [Stderr OutputNotSpecified], fs)"
  by (simp add: main_def truthy_def)

theorem main_output_not_specified_witness:
  "arg_output (default_args ''logo.png'') = None \<and>
   arg_output_dir (default_args ''logo.png'') = None \<and>
   main fake_env (default_args ''logo.png'') (logo_fs ''logo.png'')
     = (1, [Stderr OutputNotSpecified], logo_fs ''logo.png'')"
  using main_output_not_specified [of "default_args ''logo.png''" fake_env "logo_fs ''logo.png''"]
  by (simp add: default_args_def)

section \<open>The path of the staged file\<close>

text \<open>
  Claim C3 says that the staged path is the input path with its \<^verbatim>\<open>.png\<close> suffix, and only
  that suffix, replaced by \<^verbatim>\<open>_temp.png\<close>. The source calls \<^verbatim>\<open>str.replace\<close>, which
  replaces every occurrence: for an image in a directory named \<^verbatim>\<open>v1.png\<close> the staged
  path lies in another directory, \<^verbatim>\<open>v1_temp.png\<close>, and is not the suffix substitution
  \<^verbatim>\<open>v1.png/logo_temp.png\<close>. That directory does not exist, so the conversion of this
  image fails at the save although every library call succeeds.
\<close>

theorem temp_file_of_replaces_every_occurrence:
  "temp_file_of ''v1.png/logo.png'' = ''v1_temp.png/logo_temp.png'' \<and>
   temp_file_of ''v1.png/logo.png'' \<noteq> ''v1.png/logo_temp.png'' \<and>
   result_of (convert_to_svg fake_env ''v1.png/logo.png'' ''logo.svg'' True default_params True
      False ((logo_fs ''v1.png/logo.png'')(''v1.png'' \<mapsto> Dir)))
     = Inl (FileNotFoundError ''v1_temp.png/logo_temp.png'')"
  by (simp add: run_defs)

section \<open>Background removal and preprocessing\<close>

text \<open>
  Claim C6. In a conversion with \<^verbatim>\<open>remove_background\<close> false the background remover is
  never called: the trace of \<^verbatim>\<open>convert_to_svg\<close> holds no call of \<^verbatim>\<open>remove\<close>, and
  neither does the trace of \<^verbatim>\<open>main\<close> run with \<^verbatim>\<open>--keep-bg\<close>.
\<close>

theorem keep_bg_never_calls_background_remover:
  "RembgRemove \<notin> set (trace_of (convert_to_svg E input_path output_path False ps
                          enhance_quality ultra_quality fs)) \<and>
   (arg_keep_bg a \<longrightarrow> RembgRemove \<notin> set (fst (snd (main E a fs))))"
  by (auto dest!: main_events convert_to_svg_events)

theorem keep_bg_never_calls_background_remover_witness:
  "arg_keep_bg ((default_args ''logo.png'')\<lparr>arg_output := Some ''logo.svg'', arg_keep_bg := True\<rparr>) \<and>
   RembgRemove \<notin> set (fst (snd (main fake_env
      ((default_args ''logo.png'')\<lparr>arg_output := Some ''logo.svg'', arg_keep_bg := True\<rparr>)
      (logo_fs ''logo.png'')))) \<and>
   ImageSave ''logo_temp.png'' \<in> set (fst (snd (main fake_env
      ((default_args ''logo.png'')\<lparr>arg_output := Some ''logo.svg'', arg_keep_bg := True\<rparr>)
      (logo_fs ''logo.png''))))"
  using keep_bg_never_calls_background_remover [of fake_env "''logo.png''" "''logo.svg''"
      default_params True False "logo_fs ''logo.png''"
      "(default_args ''logo.png'')\<lparr>arg_output := Some ''logo.svg'', arg_keep_bg := True\<rparr>"]
  by (simp add: run_defs)

text \<open>
  Claim C7. With \<^verbatim>\<open>enhance_edges\<close> false and either value of \<^verbatim>\<open>ultra_quality\<close>,
  \<^verbatim>\<open>preprocess_image\<close> returns the image converted to RGBA where its mode is not RGBA
  and the image itself otherwise; the conversion is its only call into PIL (no filter, no
  contrast or colour enhancement) and it leaves the file system alone.
\<close>

theorem preprocess_image_without_edges_is_normalisation:
  "result_of (preprocess_image E img False ultra_quality fs)
     = (if mode img \<noteq> ''RGBA'' then pil_convert E ''RGBA'' img else Inr img) \<and>
   trace_of (preprocess_image E img False ultra_quality fs)
     = (if mode img \<noteq> ''RGBA'' then [ImageConvert ''RGBA''] else []) \<and>
   fs_of (preprocess_image E img False ultra_quality fs) = fs"
  by (simp add: preprocess_image_no_edges preprocess_image_fs)



text \<open>
  Claim C2 says that on the path that keeps the background the preprocessor runs with
  \<^verbatim>\<open>enhance_edges\<close> false, so that only contrast adjustment and staging occur. The
  first half holds; but the contrast adjustment sits inside the same \<^verbatim>\<open>if enhance_edges\<close>
  as the sharpening, so no contrast adjustment occurs either: in this run the only call
  between decoding and staging is the conversion to RGBA.
\<close>

theorem keep_bg_contrast_counterexample:
  "trace_of (convert_to_svg fake_env ''logo.png'' ''logo.svg'' False default_params True False
      (logo_fs ''logo.png''))
     = [ImageOpen ''logo.png'', ImageConvert ''RGBA'', ImageSave ''logo_temp.png'',
        Stdout (ConvertingToSvg ''logo_temp.png''),
        VtracerConvert ''logo_temp.png'' ''logo.svg'' default_params,
        Stdout (SuccessfullyConverted ''logo.svg''), OsRemove ''logo_temp.png''] \<and>
   \<not> contrast_adjusted (trace_of (convert_to_svg fake_env ''logo.png'' ''logo.svg'' False
      default_params True False (logo_fs ''logo.png'')))"
  by (simp add: run_defs contrast_adjusted_def)

text \<open>
  Claim C2 as amended. With \<^verbatim>\<open>remove_background\<close> false and quality enhancement on,
  the working image is the decoded image passed through \<^verbatim>\<open>preprocess_image\<close> with
  \<^verbatim>\<open>enhance_edges\<close> false, and the conversion calls no filter and no enhancement
  (neither sharpening nor contrast adjustment): only the normalisation to RGBA and the
  staging occur.
\<close>

theorem keep_bg_preprocessing_only_normalises:
  "result_of (working_image E input_path False True ultra_quality fs) =
     (case result_of (image_open E input_path fs) of
        Inl e \<Rightarrow> Inl e
      | Inr img \<Rightarrow>
          (case result_of (preprocess_image E img False ultra_quality fs) of
             Inl e \<Rightarrow> Inl e
           | Inr img' \<Rightarrow> Inr (Some img'))) \<and>
   ImageFilter f \<notin> set (trace_of (convert_to_svg E input_path output_path False ps True
                            ultra_quality fs)) \<and>
   ImageEnhance k factor \<notin> set (trace_of (convert_to_svg E input_path output_path False ps True
                            ultra_quality fs))"
  by (auto simp: working_image_def action_simps dest!: convert_to_svg_events split: sum.splits)

section \<open>The staged file\<close>

text \<open>
  Claim C1. Whenever \<^verbatim>\<open>convert_to_svg\<close> reaches the staging step, that is, calls
  \<^verbatim>\<open>save\<close> on a staged path \<open>t\<close>, no file is left at \<open>t\<close> when the call returns, be it
  normally or with the exception of any step: the \<^verbatim>\<open>finally\<close> clause has removed the
  staged file. The libraries are arbitrary, so every combination of failing steps is covered.
\<close>

theorem staged_file_never_left_behind:
  "ImageSave t \<in> set (trace_of (convert_to_svg E input_path output_path remove_background ps
                         enhance_quality ultra_quality fs)) \<Longrightarrow>
   \<not> is_file (fs_of (convert_to_svg E input_path output_path remove_background ps
                       enhance_quality ultra_quality fs)) t"
  by (auto dest!: convert_to_svg_staged simp: is_file_def split: if_splits)

theorem staged_file_never_left_behind_witness:
  "ImageSave ''logo_temp.png'' \<in> set (trace_of (convert_to_svg failing_tracer_env ''logo.png''
      ''logo.svg'' True default_params True False (logo_fs ''logo.png''))) \<and>
   result_of (convert_to_svg failing_tracer_env ''logo.png''
      ''logo.svg'' True default_params True False (logo_fs ''logo.png''))
     = Inl (LibraryError ''trace'') \<and>
   \<not> is_file (fs_of (convert_to_svg failing_tracer_env ''logo.png''
      ''logo.svg'' True default_params True False (logo_fs ''logo.png''))) ''logo_temp.png''"
  using staged_file_never_left_behind [of "''logo_temp.png''" failing_tracer_env "''logo.png''"
      "''logo.svg''" True default_params True False "logo_fs ''logo.png''"]
  by (simp add: run_defs)



section \<open>The output path derived from the output directory\<close>



end
